theory Spec2Isabelle
  imports Complex_Main "HOL-Library.Sublist"
begin

section \<open>DeepL auto-translator for JSON files: model of deepl\_translator.py\<close>

subsection \<open>Strings, JSON values and exceptions\<close>

text \<open>
  A Python \<open>str\<close> is a sequence of Unicode code points, so it is modelled as a list of
  natural numbers; \<open>ustr\<close> turns an ASCII literal of the source into that form.
\<close>

type_synonym ustring = "nat list"

definition ustr :: "string \<Rightarrow> ustring" where
  "ustr s = map of_char s"

text \<open>
  \<open>str.lower\<close> is part of the Python runtime (it follows the Unicode tables and is not
  character-wise everywhere), so the functions below take it as the parameter \<open>lower\<close>.
  \<open>lower_ascii\<close> is its action on the letters A to Z; Python's \<open>lower\<close> agrees with it on
  every string whose other characters are caseless (kana, CJK ideographs, digits,
  punctuation). It is the instance used where a concrete run is evaluated.
\<close>

definition lower_ascii :: "ustring \<Rightarrow> ustring" where
  "lower_ascii s = map (\<lambda>c. if 65 \<le> c \<and> c \<le> 90 then c + 32 else c) s"

text \<open>The exceptions the program can raise or meet.\<close>

datatype exn =
    SystemExit int
  | ValueError
  | KeyError
  | IndexError
  | TypeError
  | AttributeError
  | UnicodeEncodeError
  | FileNotFoundError
  | JSONDecodeError
  | RequestException

text \<open>
  A value that \<open>json.load\<close> or \<open>response.json()\<close> returns. An object carries its members
  in the order of the text; the Python \<open>dict\<close> built from them is \<open>dict_of_pairs\<close> below.
\<close>

datatype json =
    JNull
  | JBool bool
  | JNum rat
  | JStr ustring
  | JArr "json list"
  | JObj "(ustring \<times> json) list"

text \<open>The outcome of parsing a text as JSON.\<close>

datatype 'a parsed = NotJSON | Parsed 'a

subsection \<open>Python dictionaries\<close>

text \<open>
  A \<open>dict\<close> keeps its keys in insertion order, and assigning to a key that is present
  replaces the value where the key stands: an association list with that update.
\<close>

type_synonym 'v dict = "(ustring \<times> 'v) list"

fun dict_setitem :: "'v dict \<Rightarrow> ustring \<Rightarrow> 'v \<Rightarrow> 'v dict" where
  "dict_setitem [] k v = [(k, v)]"
| "dict_setitem ((k', v') # d) k v =
     (if k' = k then (k', v) # d else (k', v') # dict_setitem d k v)"

definition dict_update :: "'v dict \<Rightarrow> 'v dict \<Rightarrow> 'v dict" where
  "dict_update d other = foldl (\<lambda>acc (k, v). dict_setitem acc k v) d other"

definition dict_of_pairs :: "(ustring \<times> 'v) list \<Rightarrow> 'v dict" where
  "dict_of_pairs kvs = dict_update [] kvs"

definition dict_keys :: "'v dict \<Rightarrow> ustring list" where
  "dict_keys d = map fst d"

definition dict_getitem :: "'v dict \<Rightarrow> ustring \<Rightarrow> exn + 'v" where
  "dict_getitem d k = (case map_of d k of None \<Rightarrow> Inl KeyError | Some v \<Rightarrow> Inr v)"

text \<open>The comprehension \<open>{text: text for text in texts}\<close>.\<close>

definition identity_dict :: "ustring list \<Rightarrow> json dict" where
  "identity_dict texts = foldl (\<lambda>acc text. dict_setitem acc text (JStr text)) [] texts"

text \<open>
  Subscripting a parsed JSON value, \<open>value[key]\<close> with a \<open>str\<close> key and \<open>value[i]\<close> with a
  non-negative \<open>int\<close>. A parsed object has string keys only, so an \<open>int\<close> is never one of
  them.
\<close>

fun subscript_str :: "json \<Rightarrow> ustring \<Rightarrow> exn + json" where
  "subscript_str (JObj kvs) k = dict_getitem (dict_of_pairs kvs) k"
| "subscript_str _ k = Inl TypeError"

fun subscript_int :: "json \<Rightarrow> nat \<Rightarrow> exn + json" where
  "subscript_int (JArr xs) i = (if i < length xs then Inr (xs ! i) else Inl IndexError)"
| "subscript_int (JStr s) i = (if i < length s then Inr (JStr [s ! i]) else Inl IndexError)"
| "subscript_int (JObj kvs) i = Inl KeyError"
| "subscript_int _ i = Inl TypeError"

subsection \<open>The already-translated heuristic\<close>

definition english_patterns :: "ustring list" where
  "english_patterns = map ustr
     [''Scene'', ''Attack'', ''Fire'', ''Ice'', ''Thunder'', ''Water'', ''Wind'',
      ''Heal'', ''Magic'', ''Battle'', ''Save'', ''Load'', ''Menu'', ''Title'',
      ''false'', ''true'', ''ON'', ''OFF'', ''Graphics'', ''Data'', ''Window'']"

text \<open>\<open>text.encode('ascii')\<close>: every code point must be below 128.\<close>

definition encode_ascii :: "ustring \<Rightarrow> exn + nat list" where
  "encode_ascii text = (if list_all (\<lambda>c. c < 128) text then Inr text else Inl UnicodeEncodeError)"

text \<open>The operator \<open>needle in haystack\<close> on strings: a contiguous occurrence.\<close>

fun str_startswith :: "ustring \<Rightarrow> ustring \<Rightarrow> bool" where
  "str_startswith hay [] = True"
| "str_startswith [] (c # needle) = False"
| "str_startswith (h # hay) (c # needle) = (h = c \<and> str_startswith hay needle)"

fun str_in :: "ustring \<Rightarrow> ustring \<Rightarrow> bool" where
  "str_in needle [] = (needle = [])"
| "str_in needle (h # hay) = (str_startswith (h # hay) needle \<or> str_in needle hay)"

text \<open>The loop \<open>for pattern in english_patterns\<close>, returning at the first hit.\<close>

fun pattern_loop :: "(ustring \<Rightarrow> ustring) \<Rightarrow> ustring list \<Rightarrow> ustring \<Rightarrow> bool" where
  "pattern_loop lower [] text = False"
| "pattern_loop lower (pattern # rest) text =
     (if str_in (lower pattern) (lower text) then True else pattern_loop lower rest text)"

definition is_already_translated :: "(ustring \<Rightarrow> ustring) \<Rightarrow> ustring \<Rightarrow> bool" where
  "is_already_translated lower text =
     (case encode_ascii text of
        Inr _ \<Rightarrow> True
      | Inl _ \<Rightarrow> pattern_loop lower english_patterns text)"

subsection \<open>Endpoint selection in the constructor\<close>

text \<open>\<open>str.endswith\<close>.\<close>

definition endswith :: "ustring \<Rightarrow> ustring \<Rightarrow> bool" where
  "endswith s suf = (length suf \<le> length s \<and> drop (length s - length suf) s = suf)"

definition free_url :: ustring where
  "free_url = ustr ''https://api-free.deepl.com/v2/translate''"

definition paid_url :: ustring where
  "paid_url = ustr ''https://api.deepl.com/v2/translate''"

text \<open>
  The two assignments of \<open>self.api_url\<close> in \<open>__init__\<close>: the free-tier URL first, replaced
  by the paid one when the key does not end with \<open>:fx\<close>.
\<close>

definition select_api_url :: "ustring \<Rightarrow> ustring" where
  "select_api_url api_key =
     (let api_url = free_url in
      if \<not> endswith api_key (ustr '':fx'') then paid_url else api_url)"

subsection \<open>Configuration and the translator object\<close>

text \<open>
  The configuration document, with the fields the program reads and the types the
  specification gives them. Documents that are valid JSON but miss a field or give it
  another type are outside the model.
\<close>

record config =
  deepl_api_key :: ustring
  source_language :: ustring
  target_language :: ustring
  delay_between_requests :: rat
  batch_size :: int
  input_file :: ustring
  output_file :: ustring

text \<open>The attributes \<open>__init__\<close> sets on \<open>self\<close>.\<close>

record translator =
  self_config :: config
  self_api_key :: ustring
  self_source_lang :: ustring
  self_target_lang :: ustring
  self_delay :: rat
  self_batch_size :: int
  self_api_url :: ustring

subsection \<open>The outside world: the remote service, the clock, the file system\<close>

text \<open>What \<open>requests.post\<close> is called with: the URL, the two headers, the JSON payload.\<close>

record request =
  req_url :: ustring
  req_authorization :: ustring
  req_content_type :: ustring
  req_text :: "ustring list"
  req_source_lang :: ustring
  req_target_lang :: ustring
  req_model_type :: ustring

text \<open>
  \<open>requests.post\<close> either raises a \<open>RequestException\<close> (no connection, timeout, too many
  redirects) or returns a response with a status code and a body.
\<close>

datatype post_outcome = ConnectionFailed | Response nat "json parsed"

text \<open>
  The effects of a run, in the order they happen. Lines printed to standard output are
  left out.
\<close>

datatype event = Post request | Sleep rat | WriteFile ustring

type_synonym trace = "event list"

fun is_post :: "event \<Rightarrow> bool" where
  "is_post (Post r) = True"
| "is_post _ = False"


text \<open>
  The remote service answers the \<open>n\<close>-th request of the run (counted from 0) as it likes:
  it is a function of that number and of the request.
\<close>

type_synonym remote = "nat \<Rightarrow> request \<Rightarrow> post_outcome"

definition requests_post :: "remote \<Rightarrow> request \<Rightarrow> trace \<Rightarrow> post_outcome \<times> trace" where
  "requests_post remote req tr = (remote (length (filter is_post tr)) req, tr @ [Post req])"

text \<open>\<open>Response.raise_for_status\<close> raises \<open>HTTPError\<close>, a \<open>RequestException\<close>, on 4xx and 5xx.\<close>

definition raise_for_status :: "nat \<Rightarrow> exn + unit" where
  "raise_for_status status =
     (if 400 \<le> status \<and> status < 600 then Inl RequestException else Inr ())"

text \<open>
  \<open>Response.json\<close> raises \<open>requests.exceptions.JSONDecodeError\<close>, a \<open>RequestException\<close>,
  when the body is not JSON.
\<close>

definition response_json :: "json parsed \<Rightarrow> exn + json" where
  "response_json body = (case body of NotJSON \<Rightarrow> Inl RequestException | Parsed j \<Rightarrow> Inr j)"

text \<open>\<open>time.sleep\<close> raises \<open>ValueError\<close> on a negative argument and sleeps otherwise.\<close>

definition time_sleep :: "rat \<Rightarrow> trace \<Rightarrow> (exn + unit) \<times> trace" where
  "time_sleep secs tr = (if secs < 0 then (Inl ValueError, tr) else (Inr (), tr @ [Sleep secs]))"

subsection \<open>translate\_batch\<close>

text \<open>
  The first loop of \<open>translate_batch\<close>: it walks \<open>enumerate(texts)\<close> and appends the
  strings that need translation, and their positions, to the two lists.
\<close>

fun collect_loop ::
  "(ustring \<Rightarrow> ustring) \<Rightarrow> nat \<Rightarrow> ustring list \<Rightarrow> ustring list \<times> nat list
     \<Rightarrow> ustring list \<times> nat list" where
  "collect_loop lower i [] (texts_to_translate, text_indices) =
     (texts_to_translate, text_indices)"
| "collect_loop lower i (text # rest) (texts_to_translate, text_indices) =
     (if is_already_translated lower text
      then collect_loop lower (Suc i) rest (texts_to_translate, text_indices)
      else collect_loop lower (Suc i) rest (texts_to_translate @ [text], text_indices @ [i]))"

text \<open>
  The second loop: it walks \<open>texts\<close> again with the variables \<open>translation_results\<close> and
  \<open>translation_index\<close>, and returns both as they stand when the loop ends.
\<close>

fun assemble_loop ::
  "(ustring \<Rightarrow> ustring) \<Rightarrow> json \<Rightarrow> ustring list \<Rightarrow> json dict \<times> nat
     \<Rightarrow> exn + (json dict \<times> nat)" where
  "assemble_loop lower translations [] (translation_results, translation_index) =
     Inr (translation_results, translation_index)"
| "assemble_loop lower translations (original_text # rest)
       (translation_results, translation_index) =
     (if is_already_translated lower original_text
      then assemble_loop lower translations rest
             (dict_setitem translation_results original_text (JStr original_text),
              translation_index)
      else
        (case subscript_int translations translation_index of
           Inl e \<Rightarrow> Inl e
         | Inr element \<Rightarrow>
             (case subscript_str element (ustr ''text'') of
                Inl e \<Rightarrow> Inl e
              | Inr translated_text \<Rightarrow>
                  assemble_loop lower translations rest
                    (dict_setitem translation_results original_text translated_text,
                     Suc translation_index))))"

text \<open>
  The statements of the \<open>try\<close> block after \<open>requests.post\<close> has answered, up to the end of
  the second loop.
\<close>

definition read_response ::
  "(ustring \<Rightarrow> ustring) \<Rightarrow> post_outcome \<Rightarrow> ustring list \<Rightarrow> exn + json dict" where
  "read_response lower outcome texts =
     (case outcome of
        ConnectionFailed \<Rightarrow> Inl RequestException
      | Response status body \<Rightarrow>
          (case raise_for_status status of
             Inl e \<Rightarrow> Inl e
           | Inr _ \<Rightarrow>
               (case response_json body of
                  Inl e \<Rightarrow> Inl e
                | Inr result \<Rightarrow>
                    (case subscript_str result (ustr ''translations'') of
                       Inl e \<Rightarrow> Inl e
                     | Inr translations \<Rightarrow>
                         (case assemble_loop lower translations texts ([], 0) of
                            Inl e \<Rightarrow> Inl e
                          | Inr (translation_results, translation_index) \<Rightarrow>
                              Inr translation_results)))))"

text \<open>The whole \<open>try\<close> block: the request, the assembly of the result, the pause.\<close>

definition try_block ::
  "(ustring \<Rightarrow> ustring) \<Rightarrow> remote \<Rightarrow> translator \<Rightarrow> request \<Rightarrow> ustring list \<Rightarrow> trace
     \<Rightarrow> (exn + json dict) \<times> trace" where
  "try_block lower remote self req texts tr =
     (let (outcome, tr1) = requests_post remote req tr in
      case read_response lower outcome texts of
        Inl e \<Rightarrow> (Inl e, tr1)
      | Inr translation_results \<Rightarrow>
          (case time_sleep (self_delay self) tr1 of
             (Inl e, tr2) \<Rightarrow> (Inl e, tr2)
           | (Inr _, tr2) \<Rightarrow> (Inr translation_results, tr2)))"

definition make_request :: "translator \<Rightarrow> ustring list \<Rightarrow> request" where
  "make_request self texts_to_translate =
     \<lparr> req_url = self_api_url self,
       req_authorization = ustr ''DeepL-Auth-Key '' @ self_api_key self,
       req_content_type = ustr ''application/json'',
       req_text = texts_to_translate,
       req_source_lang = self_source_lang self,
       req_target_lang = self_target_lang self,
       req_model_type = ustr ''prefer_quality_optimized'' \<rparr>"

text \<open>
  \<open>translate_batch\<close>. The handler catches \<open>RequestException\<close> only; any other exception
  of the \<open>try\<close> block leaves the method.
\<close>

definition translate_batch ::
  "(ustring \<Rightarrow> ustring) \<Rightarrow> remote \<Rightarrow> translator \<Rightarrow> ustring list \<Rightarrow> trace
     \<Rightarrow> (exn + json dict) \<times> trace" where
  "translate_batch lower remote self texts tr =
     (let (texts_to_translate, text_indices) = collect_loop lower 0 texts ([], []) in
      if texts_to_translate = [] then (Inr (identity_dict texts), tr)
      else
        (case try_block lower remote self (make_request self texts_to_translate) texts tr of
           (Inl e, tr') \<Rightarrow>
             (if e = RequestException then (Inr (identity_dict texts), tr')
              else (Inl e, tr'))
         | (Inr translation_results, tr') \<Rightarrow> (Inr translation_results, tr')))"

subsection \<open>Loading the configuration and constructing the translator\<close>

text \<open>
  The file system as the program reads it. \<open>config_files\<close> is what \<open>load_config\<close> finds at a
  path: nothing, a text that is not JSON, or a configuration. \<open>files\<close> is what
  \<open>translate_json_file\<close> finds there, and where it writes. Opening a file for writing
  is taken to succeed.
\<close>

record world =
  config_files :: "ustring \<rightharpoonup> config parsed"
  files :: "ustring \<rightharpoonup> json parsed"

definition placeholder_key :: ustring where
  "placeholder_key = ustr ''YOUR_DEEPL_API_KEY_HERE''"

text \<open>The body of the \<open>try\<close> in \<open>load_config\<close>.\<close>

definition load_config_try :: "world \<Rightarrow> ustring \<Rightarrow> exn + config" where
  "load_config_try w config_file =
     (case config_files w config_file of
        None \<Rightarrow> Inl FileNotFoundError
      | Some NotJSON \<Rightarrow> Inl JSONDecodeError
      | Some (Parsed config) \<Rightarrow>
          (if deepl_api_key config = placeholder_key then Inl ValueError else Inr config))"

text \<open>
  \<open>load_config\<close>: the two handlers call \<open>sys.exit(1)\<close>; the \<open>ValueError\<close> of the placeholder
  check matches neither and leaves the method.
\<close>

definition load_config :: "world \<Rightarrow> ustring \<Rightarrow> exn + config" where
  "load_config w config_file =
     (case load_config_try w config_file of
        Inl e \<Rightarrow>
          (if e = FileNotFoundError then Inl (SystemExit 1)
           else if e = JSONDecodeError then Inl (SystemExit 1)
           else Inl e)
      | Inr config \<Rightarrow> Inr config)"

definition init :: "world \<Rightarrow> ustring \<Rightarrow> exn + translator" where
  "init w config_file =
     (case load_config w config_file of
        Inl e \<Rightarrow> Inl e
      | Inr config \<Rightarrow>
          Inr \<lparr> self_config = config,
                self_api_key = deepl_api_key config,
                self_source_lang = source_language config,
                self_target_lang = target_language config,
                self_delay = delay_between_requests config,
                self_batch_size = batch_size config,
                self_api_url = select_api_url (deepl_api_key config) \<rparr>)"

subsection \<open>translate\_json\_file\<close>

text \<open>\<open>len(data)\<close> and \<open>data.keys()\<close> on whatever \<open>json.load\<close> returned.\<close>

fun py_len :: "json \<Rightarrow> exn + nat" where
  "py_len (JObj kvs) = Inr (length (dict_of_pairs kvs))"
| "py_len (JArr xs) = Inr (length xs)"
| "py_len (JStr s) = Inr (length s)"
| "py_len _ = Inl TypeError"

fun data_keys :: "json \<Rightarrow> exn + ustring list" where
  "data_keys (JObj kvs) = Inr (dict_keys (dict_of_pairs kvs))"
| "data_keys _ = Inl AttributeError"

text \<open>
  \<open>range(0, stop, step)\<close>: a zero step raises \<open>ValueError\<close>, a negative one gives the empty
  range, a positive one counts up from 0 in steps while below \<open>stop\<close>.
\<close>

function range_from :: "nat \<Rightarrow> nat \<Rightarrow> nat \<Rightarrow> nat list" where
  "range_from i stop step =
     (if 0 < step \<and> i < stop then i # range_from (i + step) stop step else [])"
  by pat_completeness auto
termination
  by (relation "measure (\<lambda>(i, stop, step). stop - i)") auto

declare range_from.simps [simp del]

definition py_range :: "nat \<Rightarrow> int \<Rightarrow> exn + nat list" where
  "py_range stop step =
     (if step = 0 then Inl ValueError
      else if step < 0 then Inr []
      else Inr (range_from 0 stop (nat step)))"

text \<open>The slice \<open>xs[i:j]\<close> for \<open>0 \<le> i \<le> j\<close>.\<close>

definition py_slice :: "'a list \<Rightarrow> nat \<Rightarrow> nat \<Rightarrow> 'a list" where
  "py_slice xs i j = take (j - i) (drop i xs)"

text \<open>
  The loop over the batches, with the variables \<open>translated_data\<close> and \<open>processed\<close>. An
  exception of \<open>translate_batch\<close> ends it.
\<close>

fun batch_loop ::
  "(ustring \<Rightarrow> ustring) \<Rightarrow> remote \<Rightarrow> translator \<Rightarrow> ustring list \<Rightarrow> nat list
     \<Rightarrow> json dict \<times> nat \<Rightarrow> trace \<Rightarrow> (exn + (json dict \<times> nat)) \<times> trace" where
  "batch_loop lower remote self texts_to_translate [] (translated_data, processed) tr =
     (Inr (translated_data, processed), tr)"
| "batch_loop lower remote self texts_to_translate (i # rest) (translated_data, processed) tr =
     (let batch = py_slice texts_to_translate i (i + nat (self_batch_size self)) in
      case translate_batch lower remote self batch tr of
        (Inl e, tr') \<Rightarrow> (Inl e, tr')
      | (Inr batch_results, tr') \<Rightarrow>
          batch_loop lower remote self texts_to_translate rest
            (dict_update translated_data batch_results, processed + length batch) tr')"

definition translate_json_file ::
  "(ustring \<Rightarrow> ustring) \<Rightarrow> remote \<Rightarrow> translator \<Rightarrow> world \<Rightarrow> trace
     \<Rightarrow> (exn + unit) \<times> world \<times> trace" where
  "translate_json_file lower remote self w tr =
     (case files w (input_file (self_config self)) of
        None \<Rightarrow> (Inl (SystemExit 1), w, tr)
      | Some NotJSON \<Rightarrow> (Inl JSONDecodeError, w, tr)
      | Some (Parsed data) \<Rightarrow>
          (case py_len data of
             Inl e \<Rightarrow> (Inl e, w, tr)
           | Inr n \<Rightarrow>
               (case data_keys data of
                  Inl e \<Rightarrow> (Inl e, w, tr)
                | Inr texts_to_translate \<Rightarrow>
                    (case py_range (length texts_to_translate) (self_batch_size self) of
                       Inl e \<Rightarrow> (Inl e, w, tr)
                     | Inr indices \<Rightarrow>
                         (case batch_loop lower remote self texts_to_translate indices
                                 ([], 0) tr of
                            (Inl e, tr') \<Rightarrow> (Inl e, w, tr')
                          | (Inr (translated_data, processed), tr') \<Rightarrow>
                              (Inr (),
                               w\<lparr>files := (files w)
                                    (output_file (self_config self) \<mapsto>
                                       Parsed (JObj translated_data))\<rparr>,
                               tr' @ [WriteFile (output_file (self_config self))]))))))"

subsection \<open>The process\<close>

definition main ::
  "(ustring \<Rightarrow> ustring) \<Rightarrow> remote \<Rightarrow> world \<Rightarrow> (exn + unit) \<times> world \<times> trace" where
  "main lower remote w =
     (case init w (ustr ''config.json'') of
        Inl e \<Rightarrow> (Inl e, w, [])
      | Inr translator \<Rightarrow> translate_json_file lower remote translator w [])"

text \<open>
  The exit status of the interpreter: 0 when \<open>main\<close> returns, the argument of
  \<open>sys.exit\<close>, and 1 after the traceback of an exception nothing caught.
\<close>

fun exit_status :: "exn + unit \<Rightarrow> int" where
  "exit_status (Inr u) = 0"
| "exit_status (Inl (SystemExit code)) = code"
| "exit_status (Inl e) = 1"

definition run_process ::
  "(ustring \<Rightarrow> ustring) \<Rightarrow> remote \<Rightarrow> world \<Rightarrow> int \<times> world \<times> trace" where
  "run_process lower remote w =
     (case main lower remote w of (r, w', tr) \<Rightarrow> (exit_status r, w', tr))"

subsection \<open>The end-to-end example\<close>

text \<open>
  The run of the example: a document with the keys \<open>U+708E U+306E U+5263\<close>, \<open>Fire Sword\<close>
  and \<open>U+76FE\<close>, batch size 3, and a service that answers every request with the two
  translations \<open>Flame Sword\<close> and \<open>Shield\<close>.
\<close>

definition example_config :: config where
  "example_config =
     \<lparr> deepl_api_key = ustr ''0a1b2c:fx'',
       source_language = ustr ''JA'',
       target_language = ustr ''EN'',
       delay_between_requests = 1,
       batch_size = 3,
       input_file = ustr ''input.json'',
       output_file = ustr ''output.json'' \<rparr>"

definition example_document :: "(ustring \<times> json) list" where
  "example_document =
     [([0x708E, 0x306E, 0x5263], JNum 1), (ustr ''Fire Sword'', JNum 1), ([0x76FE], JNum 1)]"

definition example_world :: world where
  "example_world =
     \<lparr> config_files = [ustr ''config.json'' \<mapsto> Parsed example_config],
       files = [ustr ''input.json'' \<mapsto> Parsed (JObj example_document)] \<rparr>"

definition example_remote :: remote where
  "example_remote n req =
     Response 200 (Parsed (JObj [(ustr ''translations'',
       JArr [JObj [(ustr ''text'', JStr (ustr ''Flame Sword''))],
             JObj [(ustr ''text'', JStr (ustr ''Shield''))]])]))"

definition example_self :: translator where
  "example_self =
     \<lparr> self_config = example_config,
       self_api_key = ustr ''0a1b2c:fx'',
       self_source_lang = ustr ''JA'',
       self_target_lang = ustr ''EN'',
       self_delay = 1,
       self_batch_size = 3,
       self_api_url = free_url \<rparr>"

definition example_texts :: "ustring list" where
  "example_texts = [[0x708E, 0x306E, 0x5263], ustr ''Fire Sword'', [0x76FE]]"

definition example_result :: "json dict" where
  "example_result =
     [([0x708E, 0x306E, 0x5263], JStr (ustr ''Flame Sword'')),
      (ustr ''Fire Sword'', JStr (ustr ''Fire Sword'')),
      ([0x76FE], JStr (ustr ''Shield''))]"

section \<open>Properties\<close>

subsection \<open>The heuristic\<close>

lemma str_startswith_prefix: "str_startswith hay needle = prefix needle hay"
  by (induction hay needle rule: str_startswith.induct) auto

lemma str_in_sublist: "str_in needle hay = sublist needle hay"
  by (induction hay) (auto simp: str_startswith_prefix sublist_Cons_right)

lemma pattern_loop_iff:
  "pattern_loop lower ps text = (\<exists>p \<in> set ps. sublist (lower p) (lower text))"
  by (induction ps) (auto simp: str_in_sublist)

lemmas heuristic_eval =
  is_already_translated_def encode_ascii_def english_patterns_def ustr_def lower_ascii_def

text \<open>
  Claim C3. \<open>is_already_translated\<close> answers "skip" exactly when the string has only 7-bit
  characters (rule 1) or, lower-cased, contains a lower-cased token of the allow-list
  (rule 2). Rule 1 alone suffices, so an all-ASCII string is skipped whatever the
  allow-list holds, and the empty string is skipped. The function is a function of its
  argument only.
\<close>

theorem is_already_translated_iff:
  "(is_already_translated lower s \<longleftrightarrow>
      (\<forall>c \<in> set s. c < 128) \<or>
      (\<exists>p \<in> set english_patterns. sublist (lower p) (lower s)))
   \<and> ((\<forall>c \<in> set s. c < 128) \<longrightarrow> is_already_translated lower s)
   \<and> is_already_translated lower []"
  by (auto simp: is_already_translated_def encode_ascii_def pattern_loop_iff list_all_iff)

theorem is_already_translated_iff_witness:
  "is_already_translated lower_ascii (ustr ''Fire Sword'')
   \<and> \<not> is_already_translated lower_ascii [0x708E, 0x306E, 0x5263]
   \<and> \<not> (\<exists>p \<in> set english_patterns.
          sublist (lower_ascii p) (lower_ascii [0x708E, 0x306E, 0x5263]))
   \<and> is_already_translated lower_ascii ([0x708E] @ ustr ''fIRe'')
   \<and> sublist (lower_ascii (ustr ''Fire'')) (lower_ascii ([0x708E] @ ustr ''fIRe''))"
  using is_already_translated_iff [of lower_ascii "ustr ''Fire Sword''"]
    is_already_translated_iff [of lower_ascii "[0x708E, 0x306E, 0x5263]"]
    is_already_translated_iff [of lower_ascii "[0x708E] @ ustr ''fIRe''"]
  by (simp add: heuristic_eval sublist_code)

subsection \<open>Dictionaries\<close>

lemma keys_dict_setitem:
  "set (dict_keys (dict_setitem d k v)) = insert k (set (dict_keys d))"
  unfolding dict_keys_def by (induction d) force+

lemma distinct_dict_setitem:
  "distinct (dict_keys d) \<Longrightarrow> distinct (dict_keys (dict_setitem d k v))"
proof (induction d)
  case Nil
  show ?case by (simp add: dict_keys_def)
next
  case (Cons p d)
  obtain k' v' where p: "p = (k', v')" by (cases p)
  from Cons.prems have d: "distinct (dict_keys d)" and k': "k' \<notin> set (dict_keys d)"
    by (simp_all add: dict_keys_def p)
  show ?case
  proof (cases "k' = k")
    case True
    with Cons.prems show ?thesis by (simp add: p dict_keys_def)
  next
    case False
    from Cons.IH [OF d] k' False keys_dict_setitem [of d k v] show ?thesis
      by (simp add: p dict_keys_def)
  qed
qed

lemma map_of_dict_setitem: "map_of (dict_setitem d k v) = (map_of d)(k \<mapsto> v)"
  by (induction d) auto

lemma keys_dict_update:
  "set (dict_keys (dict_update d other)) = set (dict_keys d) \<union> set (dict_keys other)"
proof (induction other arbitrary: d)
  case Nil
  show ?case by (simp add: dict_update_def dict_keys_def)
next
  case (Cons kv other)
  obtain k v where kv: "kv = (k, v)" by (cases kv)
  have step: "dict_update d (kv # other) = dict_update (dict_setitem d k v) other"
    by (simp add: dict_update_def kv)
  have "set (dict_keys (kv # other)) = insert k (set (dict_keys other))"
    by (simp add: dict_keys_def kv)
  then show ?case
    by (simp add: step Cons.IH keys_dict_setitem)
qed

lemma distinct_dict_update:
  "distinct (dict_keys d) \<Longrightarrow> distinct (dict_keys (dict_update d other))"
proof (induction other arbitrary: d)
  case Nil
  then show ?case by (simp add: dict_update_def)
next
  case (Cons kv other)
  obtain k v where kv: "kv = (k, v)" by (cases kv)
  have step: "dict_update d (kv # other) = dict_update (dict_setitem d k v) other"
    by (simp add: dict_update_def kv)
  from Cons.prems show ?case
    by (simp add: step Cons.IH distinct_dict_setitem)
qed

lemma dict_keys_Nil: "dict_keys [] = []"
  by (simp add: dict_keys_def)

lemma keys_dict_of_pairs: "set (dict_keys (dict_of_pairs kvs)) = fst ` set kvs"
  by (simp add: dict_of_pairs_def keys_dict_update dict_keys_Nil) (simp add: dict_keys_def)

lemma distinct_dict_of_pairs: "distinct (dict_keys (dict_of_pairs kvs))"
  by (simp add: dict_of_pairs_def distinct_dict_update dict_keys_Nil)

lemma identity_fold_keys:
  "set (dict_keys (foldl (\<lambda>acc text. dict_setitem acc text (JStr text)) d texts)) =
     set (dict_keys d) \<union> set texts"
  by (induction texts arbitrary: d) (simp_all add: keys_dict_setitem)

lemma identity_fold_distinct:
  "distinct (dict_keys d) \<Longrightarrow>
     distinct (dict_keys (foldl (\<lambda>acc text. dict_setitem acc text (JStr text)) d texts))"
  by (induction texts arbitrary: d) (simp_all add: distinct_dict_setitem)

lemma identity_fold_map_of:
  "map_of (foldl (\<lambda>acc text. dict_setitem acc text (JStr text)) d texts) t =
     (if t \<in> set texts then Some (JStr t) else map_of d t)"
  by (induction texts arbitrary: d) (auto simp: map_of_dict_setitem)

lemma keys_identity_dict: "set (dict_keys (identity_dict texts)) = set texts"
  by (simp add: identity_dict_def identity_fold_keys) (simp add: dict_keys_def)

lemma distinct_identity_dict: "distinct (dict_keys (identity_dict texts))"
  using identity_fold_distinct [of "[]" texts]
  by (simp add: identity_dict_def dict_keys_def)

lemma map_of_identity_dict:
  "map_of (identity_dict texts) t = (if t \<in> set texts then Some (JStr t) else None)"
  by (simp add: identity_dict_def identity_fold_map_of)

subsection \<open>The two loops of translate\_batch\<close>

lemma collect_loop_fst:
  "fst (collect_loop lower i texts (tt, ti)) =
     tt @ filter (\<lambda>t. \<not> is_already_translated lower t) texts"
  by (induction texts arbitrary: i tt ti) simp_all

lemma assemble_loop_skip:
  "is_already_translated lower a \<Longrightarrow>
     assemble_loop lower translations (a # rest) (d, k) =
       assemble_loop lower translations rest (dict_setitem d a (JStr a), k)"
  by simp

lemma assemble_loop_consume:
  assumes "\<not> is_already_translated lower a"
    and "assemble_loop lower translations (a # rest) (d, k) = Inr r"
  obtains element v where "subscript_int translations k = Inr element"
    and "subscript_str element (ustr ''text'') = Inr v"
    and "assemble_loop lower translations rest (dict_setitem d a v, Suc k) = Inr r"
  using assms by (auto split: sum.splits)

lemma assemble_loop_index:
  "assemble_loop lower translations texts (d, k) = Inr (res, k') \<Longrightarrow>
     k' = k + length (filter (\<lambda>t. \<not> is_already_translated lower t) texts)"
proof (induction texts arbitrary: d k)
  case Nil
  then show ?case by simp
next
  case (Cons a rest)
  show ?case
  proof (cases "is_already_translated lower a")
    case True
    with Cons.prems Cons.IH [of "dict_setitem d a (JStr a)" k] show ?thesis
      by simp
  next
    case False
    from False Cons.prems obtain v
      where "assemble_loop lower translations rest (dict_setitem d a v, Suc k) = Inr (res, k')"
      by (rule assemble_loop_consume)
    from Cons.IH [OF this] False show ?thesis
      by simp
  qed
qed

lemma assemble_loop_keys:
  "assemble_loop lower translations texts (d, k) = Inr (res, k') \<Longrightarrow>
     set (dict_keys res) = set (dict_keys d) \<union> set texts"
proof (induction texts arbitrary: d k)
  case Nil
  then show ?case by simp
next
  case (Cons a rest)
  show ?case
  proof (cases "is_already_translated lower a")
    case True
    with Cons.prems Cons.IH [of "dict_setitem d a (JStr a)" k] show ?thesis
      by (simp add: keys_dict_setitem)
  next
    case False
    from False Cons.prems obtain v
      where "assemble_loop lower translations rest (dict_setitem d a v, Suc k) = Inr (res, k')"
      by (rule assemble_loop_consume)
    from Cons.IH [OF this] show ?thesis
      by (simp add: keys_dict_setitem)
  qed
qed

lemma assemble_loop_distinct:
  "assemble_loop lower translations texts (d, k) = Inr (res, k') \<Longrightarrow>
     distinct (dict_keys d) \<Longrightarrow> distinct (dict_keys res)"
proof (induction texts arbitrary: d k)
  case Nil
  then show ?case by simp
next
  case (Cons a rest)
  show ?case
  proof (cases "is_already_translated lower a")
    case True
    with Cons.prems Cons.IH [of "dict_setitem d a (JStr a)" k] show ?thesis
      by (simp add: distinct_dict_setitem)
  next
    case False
    from False Cons.prems(1) obtain v
      where "assemble_loop lower translations rest (dict_setitem d a v, Suc k) = Inr (res, k')"
      by (rule assemble_loop_consume)
    from Cons.IH [OF this] Cons.prems(2) show ?thesis
      by (simp add: distinct_dict_setitem)
  qed
qed





lemma assemble_loop_no_IndexError:
  "k + length (filter (\<lambda>t. \<not> is_already_translated lower t) texts) \<le> length ts \<Longrightarrow>
     assemble_loop lower (JArr ts) texts (d, k) \<noteq> Inl IndexError"
proof (induction texts arbitrary: d k)
  case Nil
  show ?case by simp
next
  case (Cons a rest)
  show ?case
  proof (cases "is_already_translated lower a")
    case True
    with Cons.prems Cons.IH [of k "dict_setitem d a (JStr a)"] show ?thesis by simp
  next
    case False
    with Cons.prems have k: "k < length ts"
      and rest: "Suc k + length (filter (\<lambda>t. \<not> is_already_translated lower t) rest) \<le> length ts"
      by simp_all
    show ?thesis
    proof (cases "subscript_str (ts ! k) (ustr ''text'')")
      case (Inl e)
      then have "e \<noteq> IndexError"
        by (cases "ts ! k") (auto simp: dict_getitem_def split: option.splits)
      with Inl False k show ?thesis by simp
    next
      case (Inr v)
      with False k Cons.IH [OF rest, of "dict_setitem d a v"] show ?thesis by simp
    qed
  qed
qed

lemma assemble_loop_take:
  "k + length (filter (\<lambda>t. \<not> is_already_translated lower t) texts) \<le> m \<Longrightarrow>
     assemble_loop lower (JArr (take m ts)) texts (d, k) = assemble_loop lower (JArr ts) texts (d, k)"
proof (induction texts arbitrary: d k)
  case Nil
  show ?case by simp
next
  case (Cons a rest)
  show ?case
  proof (cases "is_already_translated lower a")
    case True
    with Cons.prems Cons.IH [of k "dict_setitem d a (JStr a)"] show ?thesis by simp
  next
    case False
    with Cons.prems have k: "k < m"
      and rest: "Suc k + length (filter (\<lambda>t. \<not> is_already_translated lower t) rest) \<le> m"
      by simp_all
    from k have sub: "subscript_int (JArr (take m ts)) k = subscript_int (JArr ts) k"
      by simp
    show ?thesis
      using False Cons.IH [OF rest]
      by (simp only: assemble_loop.simps sub if_False split: sum.splits)
  qed
qed

subsection \<open>translate\_batch as a whole\<close>

lemma translate_batch_unfold:
  "translate_batch lower remote self texts tr =
     (let submitted = filter (\<lambda>t. \<not> is_already_translated lower t) texts;
          req = make_request self submitted in
      if submitted = [] then (Inr (identity_dict texts), tr)
      else
        (case read_response lower (remote (length (filter is_post tr)) req) texts of
           Inl e \<Rightarrow>
             (if e = RequestException then (Inr (identity_dict texts), tr @ [Post req])
              else (Inl e, tr @ [Post req]))
         | Inr res \<Rightarrow>
             (if self_delay self < 0 then (Inl ValueError, tr @ [Post req])
              else (Inr res, tr @ [Post req, Sleep (self_delay self)]))))"
proof -
  obtain tt ti where c: "collect_loop lower 0 texts ([], []) = (tt, ti)"
    by (cases "collect_loop lower 0 texts ([], [])")
  from collect_loop_fst [of lower 0 texts "[]" "[]"] c
  have tt: "tt = filter (\<lambda>t. \<not> is_already_translated lower t) texts"
    by simp
  show ?thesis
    by (simp add: translate_batch_def c tt [symmetric] try_block_def requests_post_def
        time_sleep_def Let_def split: sum.splits)
qed

lemma read_response_Inr:
  assumes "read_response lower outcome texts = Inr res"
  obtains status result trs k where
    "outcome = Response status (Parsed result)"
    "\<not> (400 \<le> status \<and> status < 600)"
    "subscript_str result (ustr ''translations'') = Inr trs"
    "assemble_loop lower trs texts ([], 0) = Inr (res, k)"
  using assms
  by (auto simp: read_response_def raise_for_status_def response_json_def
      split: post_outcome.splits parsed.splits sum.splits if_splits)

lemma read_response_keys:
  assumes "read_response lower outcome texts = Inr res"
  shows "set (dict_keys res) = set texts" and "distinct (dict_keys res)"
proof -
  from assms obtain trs k where
    run: "assemble_loop lower trs texts ([], 0) = Inr (res, k)"
    by (rule read_response_Inr)
  from assemble_loop_keys [OF run] show "set (dict_keys res) = set texts"
    by (simp add: dict_keys_def)
  from assemble_loop_distinct [OF run] show "distinct (dict_keys res)"
    by (simp add: dict_keys_def)
qed

lemma read_response_transport:
  "outcome = ConnectionFailed
   \<or> (\<exists>status body. outcome = Response status body \<and> 400 \<le> status \<and> status < 600)
   \<or> (\<exists>status. outcome = Response status NotJSON) \<Longrightarrow>
   read_response lower outcome texts = Inl RequestException"
  by (auto simp: read_response_def raise_for_status_def response_json_def)

lemma translate_batch_Inr:
  assumes "translate_batch lower remote self texts tr = (Inr res, tr')"
  shows "res = identity_dict texts \<or> (\<exists>outcome. read_response lower outcome texts = Inr res)"
  using assms
  by (auto simp: translate_batch_unfold Let_def split: if_splits sum.splits)

lemma translate_batch_keys:
  assumes "translate_batch lower remote self texts tr = (Inr res, tr')"
  shows "set (dict_keys res) = set texts" and "distinct (dict_keys res)"
  using translate_batch_Inr [OF assms]
  by (auto simp: keys_identity_dict distinct_identity_dict read_response_keys)

lemma translate_batch_request_exception:
  assumes "filter (\<lambda>t. \<not> is_already_translated lower t) texts \<noteq> []"
    and "read_response lower
           (remote (length (filter is_post tr))
              (make_request self (filter (\<lambda>t. \<not> is_already_translated lower t) texts)))
           texts = Inl RequestException"
  shows "translate_batch lower remote self texts tr =
     (Inr (identity_dict texts),
      tr @ [Post (make_request self (filter (\<lambda>t. \<not> is_already_translated lower t) texts))])"
  using assms by (simp add: translate_batch_unfold Let_def)

text \<open>
  When the delay is not negative and reading a response raises nothing but
  \<open>RequestException\<close> (as with a service that is down, or one that answers well-formed
  bodies), every batch returns a mapping and the run completes and writes its output.
\<close>

lemma translate_batch_returns:
  assumes "0 \<le> self_delay self"
    and "\<forall>n req ts e. read_response lower (remote n req) ts = Inl e \<longrightarrow> e = RequestException"
  shows "\<exists>res tr'. translate_batch lower remote self texts tr = (Inr res, tr')"
proof -
  let ?sub = "filter (\<lambda>t. \<not> is_already_translated lower t) texts"
  let ?rr = "read_response lower (remote (length (filter is_post tr)) (make_request self ?sub)) texts"
  from assms(1) have d: "\<not> self_delay self < 0" by simp
  show ?thesis
  proof (cases ?rr)
    case (Inl e)
    with assms(2) have "e = RequestException" by blast
    with Inl show ?thesis
      by (simp add: translate_batch_unfold Let_def)
  next
    case (Inr res)
    with d show ?thesis
      by (simp add: translate_batch_unfold Let_def)
  qed
qed

subsection \<open>Batches\<close>

lemma range_from_step:
  "0 < step \<Longrightarrow> i < stop \<Longrightarrow>
     range_from i stop step = i # range_from (i + step) stop step"
  by (subst range_from.simps) simp

lemma range_from_stop: "\<not> (0 < step \<and> i < stop) \<Longrightarrow> range_from i stop step = []"
  by (subst range_from.simps) simp




lemma concat_slices:
  "0 < step \<Longrightarrow>
     concat (map (\<lambda>j. py_slice xs j (j + step)) (range_from i (length xs) step)) = drop i xs"
proof (induction i "length xs" step rule: range_from.induct)
  case (1 i step)
  show ?case
  proof (cases "i < length xs")
    case False
    then show ?thesis by (simp add: range_from_stop)
  next
    case True
    have "concat (map (\<lambda>j. py_slice xs j (j + step)) (range_from i (length xs) step))
        = py_slice xs i (i + step) @ drop (i + step) xs"
      using "1.hyps" True "1.prems" by (simp add: range_from_step)
    also have "\<dots> = take step (drop i xs) @ drop step (drop i xs)"
      by (simp add: py_slice_def add.commute)
    also have "\<dots> = drop i xs"
      by (rule append_take_drop_id)
    finally show ?thesis .
  qed
qed



lemma distinct_py_slice: "distinct xs \<Longrightarrow> distinct (py_slice xs i j)"
  by (simp add: py_slice_def distinct_drop)



subsection \<open>The orchestrator\<close>

lemma batch_loop_keys:
  "batch_loop lower remote self texts indices (td, p) tr = (Inr (td', p'), tr') \<Longrightarrow>
     set (dict_keys td') =
       set (dict_keys td) \<union>
       set (concat (map (\<lambda>i. py_slice texts i (i + nat (self_batch_size self))) indices))
     \<and> (distinct (dict_keys td) \<longrightarrow> distinct (dict_keys td'))"
proof (induction indices arbitrary: td p tr)
  case Nil
  then show ?case by simp
next
  case (Cons i rest)
  let ?batch = "py_slice texts i (i + nat (self_batch_size self))"
  obtain r tr1 where tb: "translate_batch lower remote self ?batch tr = (r, tr1)"
    by (cases "translate_batch lower remote self ?batch tr")
  show ?case
  proof (cases r)
    case (Inl e)
    with Cons.prems tb show ?thesis by (simp add: Let_def)
  next
    case (Inr batch_results)
    with Cons.prems tb
    have run: "batch_loop lower remote self texts rest
        (dict_update td batch_results, p + length ?batch) tr1 = (Inr (td', p'), tr')"
      by (simp add: Let_def)
    from tb Inr have keys: "set (dict_keys batch_results) = set ?batch"
      by (simp add: translate_batch_keys)
    from Cons.IH [OF run] keys show ?thesis
      by (auto simp: keys_dict_update distinct_dict_update)
  qed
qed

lemma batch_loop_returns:
  assumes "0 \<le> self_delay self"
    and "\<forall>n req ts e. read_response lower (remote n req) ts = Inl e \<longrightarrow> e = RequestException"
  shows "\<exists>td' p' tr'. batch_loop lower remote self texts indices (td, p) tr = (Inr (td', p'), tr')"
proof (induction indices arbitrary: td p tr)
  case Nil
  show ?case by simp
next
  case (Cons i rest)
  let ?batch = "py_slice texts i (i + nat (self_batch_size self))"
  from translate_batch_returns [OF assms, of ?batch tr] obtain res tr1
    where tb: "translate_batch lower remote self ?batch tr = (Inr res, tr1)"
    by blast
  from Cons.IH [of "dict_update td res" "p + length ?batch" tr1] tb show ?case
    by (simp add: Let_def)
qed

lemma translate_json_file_completes:
  assumes "1 \<le> self_batch_size self"
    and "0 \<le> self_delay self"
    and "files w (input_file (self_config self)) = Some (Parsed (JObj D))"
    and "\<forall>n req ts e. read_response lower (remote n req) ts = Inl e \<longrightarrow> e = RequestException"
  shows "\<exists>w' tr'. translate_json_file lower remote self w tr = (Inr (), w', tr')"
proof -
  let ?texts = "dict_keys (dict_of_pairs D)"
  from assms(1) have range: "py_range (length ?texts) (self_batch_size self) =
      Inr (range_from 0 (length ?texts) (nat (self_batch_size self)))"
    by (simp add: py_range_def)
  from batch_loop_returns [OF assms(2,4)] obtain td' p' tr1
    where "batch_loop lower remote self ?texts
      (range_from 0 (length ?texts) (nat (self_batch_size self))) ([], 0) tr =
      (Inr (td', p'), tr1)"
    by blast
  with assms(3) range show ?thesis
    by (simp add: translate_json_file_def)
qed

subsection \<open>The example run, evaluated\<close>

lemmas run_eval =
  translate_batch_def try_block_def requests_post_def read_response_def raise_for_status_def
  response_json_def time_sleep_def make_request_def identity_dict_def dict_getitem_def
  dict_of_pairs_def dict_update_def dict_keys_def py_slice_def py_range_def

lemma example_init: "init example_world (ustr ''config.json'') = Inr example_self"
  by (simp add: init_def load_config_def load_config_try_def example_world_def
      example_config_def example_self_def placeholder_key_def select_api_url_def
      endswith_def ustr_def)

lemma example_batch:
  "translate_batch lower_ascii example_remote example_self example_texts [] =
   (Inr example_result,
    [Post (make_request example_self [[0x708E, 0x306E, 0x5263], [0x76FE]]), Sleep 1])"
  by (simp add: run_eval heuristic_eval example_remote_def example_self_def
      example_texts_def example_result_def)

lemma example_run:
  "translate_json_file lower_ascii example_remote example_self example_world [] =
   (Inr (),
    example_world\<lparr>files := (files example_world)(ustr ''output.json'' \<mapsto>
      Parsed (JObj example_result))\<rparr>,
    [Post (make_request example_self [[0x708E, 0x306E, 0x5263], [0x76FE]]), Sleep 1,
     WriteFile (ustr ''output.json'')])"
proof -
  have keys: "dict_keys (dict_of_pairs example_document) = example_texts"
    by (simp add: example_document_def example_texts_def dict_of_pairs_def dict_update_def
        dict_keys_def ustr_def)
  have len: "py_len (JObj example_document) = Inr 3"
    by (simp add: example_document_def dict_of_pairs_def dict_update_def ustr_def)
  have n: "length example_texts = 3"
    by (simp add: example_texts_def)
  have range: "py_range 3 3 = Inr [0]"
    by (simp add: py_range_def range_from.simps)
  have slice: "py_slice example_texts 0 3 = example_texts"
    by (simp add: py_slice_def example_texts_def)
  have input: "files example_world (input_file (self_config example_self)) =
      Some (Parsed (JObj example_document))"
    by (simp add: example_world_def example_self_def example_config_def)
  have out: "output_file (self_config example_self) = ustr ''output.json''"
    and bs: "self_batch_size example_self = 3"
    by (simp_all add: example_self_def example_config_def)
  have upd: "dict_update [] example_result = example_result"
    by (simp add: dict_update_def example_result_def ustr_def)
  show ?thesis
    by (simp add: translate_json_file_def input len keys n range bs out slice example_batch upd)
qed

lemma example_process:
  "run_process lower_ascii example_remote example_world =
   (0,
    example_world\<lparr>files := (files example_world)(ustr ''output.json'' \<mapsto>
      Parsed (JObj example_result))\<rparr>,
    [Post (make_request example_self [[0x708E, 0x306E, 0x5263], [0x76FE]]), Sleep 1,
     WriteFile (ustr ''output.json'')])"
  by (simp add: run_process_def main_def example_init example_run)

lemma example_run_service_down:
  "translate_json_file lower_ascii (\<lambda>n req. ConnectionFailed) example_self example_world [] =
   (Inr (),
    example_world\<lparr>files := (files example_world)(ustr ''output.json'' \<mapsto>
      Parsed (JObj (identity_dict example_texts)))\<rparr>,
    [Post (make_request example_self [[0x708E, 0x306E, 0x5263], [0x76FE]]),
     WriteFile (ustr ''output.json'')])"
proof -
  have f: "filter (\<lambda>t. \<not> is_already_translated lower_ascii t) example_texts =
      [[0x708E, 0x306E, 0x5263], [0x76FE]]"
    by (simp add: example_texts_def heuristic_eval)
  have batch: "translate_batch lower_ascii (\<lambda>n req. ConnectionFailed) example_self
      example_texts [] =
      (Inr (identity_dict example_texts),
       [Post (make_request example_self [[0x708E, 0x306E, 0x5263], [0x76FE]])])"
    using translate_batch_request_exception [of lower_ascii example_texts
        "\<lambda>n req. ConnectionFailed" "[]" example_self]
    by (simp add: f read_response_transport)
  have keys: "dict_keys (dict_of_pairs example_document) = example_texts"
    by (simp add: example_document_def example_texts_def dict_of_pairs_def dict_update_def
        dict_keys_def ustr_def)
  have len: "py_len (JObj example_document) = Inr 3"
    by (simp add: example_document_def dict_of_pairs_def dict_update_def ustr_def)
  have n: "length example_texts = 3"
    by (simp add: example_texts_def)
  have range: "py_range 3 3 = Inr [0]"
    by (simp add: py_range_def range_from.simps)
  have slice: "py_slice example_texts 0 3 = example_texts"
    by (simp add: py_slice_def example_texts_def)
  have input: "files example_world (input_file (self_config example_self)) =
      Some (Parsed (JObj example_document))"
    by (simp add: example_world_def example_self_def example_config_def)
  have out: "output_file (self_config example_self) = ustr ''output.json''"
    and bs: "self_batch_size example_self = 3"
    by (simp_all add: example_self_def example_config_def)
  have upd: "dict_update [] (identity_dict example_texts) = identity_dict example_texts"
    by (simp add: dict_update_def identity_dict_def example_texts_def ustr_def)
  show ?thesis
    by (simp add: translate_json_file_def input len keys n range bs out slice batch upd)
qed

subsection \<open>The key set of the output\<close>

text \<open>
  Claim C1. Whenever \<open>translate_json_file\<close> completes on a document \<open>D\<close> with a batch size
  of at least 1, the mapping written to the output file has exactly the keys of \<open>D\<close>, each
  once, whatever the heuristic skipped and whatever the remote service answered.
\<close>

theorem translate_json_file_key_set:
  assumes "1 \<le> self_batch_size self"
    and "files w (input_file (self_config self)) = Some (Parsed (JObj D))"
    and "translate_json_file lower remote self w tr = (Inr (), w', tr')"
  shows "\<exists>out. files w' (output_file (self_config self)) = Some (Parsed (JObj out))
           \<and> set (dict_keys out) = fst ` set D
           \<and> distinct (dict_keys out)"
proof -
  let ?texts = "dict_keys (dict_of_pairs D)"
  let ?B = "self_batch_size self"
  from assms(1) have range: "py_range (length ?texts) ?B = Inr (range_from 0 (length ?texts) (nat ?B))"
    by (simp add: py_range_def)
  obtain r tr1 where loop: "batch_loop lower remote self ?texts
      (range_from 0 (length ?texts) (nat ?B)) ([], 0) tr = (r, tr1)"
    by (cases "batch_loop lower remote self ?texts
      (range_from 0 (length ?texts) (nat ?B)) ([], 0) tr")
  from assms(2,3) range loop obtain out processed where r: "r = Inr (out, processed)"
    and w': "w' = w\<lparr>files := (files w)(output_file (self_config self) \<mapsto> Parsed (JObj out))\<rparr>"
    by (cases r) (auto simp: translate_json_file_def)
  from assms(1) have cc: "concat (map (\<lambda>i. py_slice ?texts i (i + nat ?B))
      (range_from 0 (length ?texts) (nat ?B))) = ?texts"
    by (simp add: concat_slices)
  from batch_loop_keys [OF loop [unfolded r]]
  have "set (dict_keys out) = set ?texts" and "distinct (dict_keys out)"
    by (simp_all only: cc dict_keys_Nil) simp_all
  with w' show ?thesis
    by (simp add: keys_dict_of_pairs)
qed

theorem translate_json_file_key_set_witness:
  "1 \<le> self_batch_size example_self
   \<and> files example_world (input_file (self_config example_self)) =
       Some (Parsed (JObj example_document))
   \<and> fst (translate_json_file lower_ascii example_remote example_self example_world []) = Inr ()
   \<and> (\<exists>out. files (fst (snd (translate_json_file lower_ascii example_remote example_self
                   example_world [])))
              (output_file (self_config example_self)) = Some (Parsed (JObj out))
          \<and> set (dict_keys out) = fst ` set example_document
          \<and> distinct (dict_keys out))
   \<and> fst (translate_json_file lower_ascii (\<lambda>n req. ConnectionFailed) example_self
          example_world []) = Inr ()
   \<and> (\<exists>out. files (fst (snd (translate_json_file lower_ascii (\<lambda>n req. ConnectionFailed)
                   example_self example_world [])))
              (output_file (self_config example_self)) = Some (Parsed (JObj out))
          \<and> set (dict_keys out) = fst ` set example_document
          \<and> distinct (dict_keys out))"
proof -
  have b: "1 \<le> self_batch_size example_self"
    by (simp add: example_self_def)
  have i: "files example_world (input_file (self_config example_self)) =
      Some (Parsed (JObj example_document))"
    by (simp add: example_world_def example_self_def example_config_def)
  from translate_json_file_key_set [OF b i example_run]
    translate_json_file_key_set [OF b i example_run_service_down] b i
  show ?thesis
    by (simp add: example_run example_run_service_down)
qed

subsection \<open>Endpoint selection\<close>

lemma endswith_suffix: "endswith s suf = suffix suf s"
proof
  assume "endswith s suf"
  then have "drop (length s - length suf) s = suf"
    by (simp add: endswith_def)
  then have "s = take (length s - length suf) s @ suf"
    by (metis append_take_drop_id)
  then show "suffix suf s"
    by (rule suffixI)
next
  assume "suffix suf s"
  then show "endswith s suf"
    by (auto simp: endswith_def suffix_def)
qed

lemma free_url_neq_paid_url: "free_url \<noteq> paid_url"
  by (simp add: free_url_def paid_url_def ustr_def)

text \<open>
  Claim C8. The endpoint is a function of the credential string alone: the free-tier URL
  is selected if and only if the credential ends with \<open>:fx\<close>, and every other credential
  selects the paid URL. The constructor makes the selection, once, from the credential of
  the configuration it loaded, and every request goes to the URL selected there.
\<close>

theorem select_api_url_iff:
  "(select_api_url api_key = free_url \<longleftrightarrow> suffix (ustr '':fx'') api_key)
   \<and> (\<not> suffix (ustr '':fx'') api_key \<longrightarrow> select_api_url api_key = paid_url)
   \<and> (\<forall>self. init w config_file = Inr self \<longrightarrow>
          self_api_url self = select_api_url (self_api_key self)
          \<and> self_api_key self = deepl_api_key (self_config self))
   \<and> req_url (make_request self' texts) = self_api_url self'"
  using free_url_neq_paid_url
  by (auto simp: select_api_url_def endswith_suffix init_def make_request_def
      split: sum.splits)

theorem select_api_url_iff_witness:
  "suffix (ustr '':fx'') (ustr ''0a1b2c:fx'')
   \<and> select_api_url (ustr ''0a1b2c:fx'') = free_url
   \<and> \<not> suffix (ustr '':fx'') (ustr ''0a1b2c:fx2'')
   \<and> select_api_url (ustr ''0a1b2c:fx2'') = paid_url
   \<and> init example_world (ustr ''config.json'') = Inr example_self
   \<and> self_api_url example_self = select_api_url (self_api_key example_self)"
  using select_api_url_iff [of "ustr ''0a1b2c:fx''" example_world "ustr ''config.json''"]
    select_api_url_iff [of "ustr ''0a1b2c:fx2''"]
  by (simp add: example_init) (simp add: ustr_def suffix_def)

subsection \<open>translate\_batch: no call, failed call, successful call\<close>

text \<open>
  Claim C6. When the heuristic answers "skip" for every string of a batch,
  \<open>translate_batch\<close> makes no request (the trace of effects is unchanged, whatever the
  remote service would have answered) and returns the mapping of each string to itself.
\<close>

theorem translate_batch_all_skipped:
  assumes "\<forall>t \<in> set texts. is_already_translated lower t"
  shows "translate_batch lower remote self texts tr = (Inr (identity_dict texts), tr)
     \<and> set (dict_keys (identity_dict texts)) = set texts
     \<and> (\<forall>t \<in> set texts. map_of (identity_dict texts) t = Some (JStr t))"
proof -
  from assms have "filter (\<lambda>t. \<not> is_already_translated lower t) texts = []"
    by (simp add: filter_empty_conv)
  then show ?thesis
    by (simp add: translate_batch_unfold keys_identity_dict map_of_identity_dict)
qed

theorem translate_batch_all_skipped_witness:
  "is_already_translated lower_ascii (ustr ''Fire Sword'')
   \<and> is_already_translated lower_ascii (ustr ''Menu'')
   \<and> translate_batch lower_ascii example_remote example_self
        [ustr ''Fire Sword'', ustr ''Menu''] [] =
      (Inr [(ustr ''Fire Sword'', JStr (ustr ''Fire Sword'')),
            (ustr ''Menu'', JStr (ustr ''Menu''))], [])"
proof -
  have s: "\<forall>t \<in> set [ustr ''Fire Sword'', ustr ''Menu'']. is_already_translated lower_ascii t"
    by (simp add: heuristic_eval)
  have "identity_dict [ustr ''Fire Sword'', ustr ''Menu''] =
      [(ustr ''Fire Sword'', JStr (ustr ''Fire Sword'')), (ustr ''Menu'', JStr (ustr ''Menu''))]"
    by (simp add: identity_dict_def ustr_def)
  with translate_batch_all_skipped [OF s, of example_remote example_self "[]"] s
  show ?thesis by simp
qed





text \<open>
  Claim C10. When the \<open>translations\<close> array has at least as many elements as the first
  loop collected strings, the second loop never reads the array out of bounds (it does
  not raise \<open>IndexError\<close>), it ends with \<open>translation_index\<close> equal to the number of
  strings collected, and the elements of the array beyond that number do not influence
  its result.
\<close>

theorem assemble_loop_in_bounds:
  assumes "length (fst (collect_loop lower 0 texts ([], []))) \<le> length ts"
  shows "assemble_loop lower (JArr ts) texts ([], 0) \<noteq> Inl IndexError
     \<and> (\<forall>res k. assemble_loop lower (JArr ts) texts ([], 0) = Inr (res, k) \<longrightarrow>
           k = length (fst (collect_loop lower 0 texts ([], []))))
     \<and> assemble_loop lower
           (JArr (take (length (fst (collect_loop lower 0 texts ([], [])))) ts)) texts ([], 0) =
         assemble_loop lower (JArr ts) texts ([], 0)"
proof -
  have c: "fst (collect_loop lower 0 texts ([], [])) =
      filter (\<lambda>t. \<not> is_already_translated lower t) texts"
    by (simp add: collect_loop_fst)
  from assms have le: "0 + length (filter (\<lambda>t. \<not> is_already_translated lower t) texts) \<le> length ts"
    by (simp add: c)
  have "assemble_loop lower (JArr ts) texts ([], 0) \<noteq> Inl IndexError"
    using le by (rule assemble_loop_no_IndexError)
  moreover have "\<forall>res k. assemble_loop lower (JArr ts) texts ([], 0) = Inr (res, k) \<longrightarrow>
      k = length (filter (\<lambda>t. \<not> is_already_translated lower t) texts)"
    using assemble_loop_index [of lower "JArr ts" texts "[]" 0] by simp
  moreover have "assemble_loop lower
      (JArr (take (length (filter (\<lambda>t. \<not> is_already_translated lower t) texts)) ts)) texts ([], 0) =
      assemble_loop lower (JArr ts) texts ([], 0)"
    by (rule assemble_loop_take) simp
  ultimately show ?thesis
    by (simp only: c) blast
qed

theorem assemble_loop_in_bounds_witness:
  "length (fst (collect_loop lower_ascii 0 example_texts ([], []))) = 2
   \<and> assemble_loop lower_ascii
        (JArr [JObj [(ustr ''text'', JStr (ustr ''Flame Sword''))],
               JObj [(ustr ''text'', JStr (ustr ''Shield''))],
               JObj [(ustr ''text'', JStr (ustr ''Spare''))]])
        example_texts ([], 0) = Inr (example_result, 2)
   \<and> assemble_loop lower_ascii
        (JArr (take 2 [JObj [(ustr ''text'', JStr (ustr ''Flame Sword''))],
               JObj [(ustr ''text'', JStr (ustr ''Shield''))],
               JObj [(ustr ''text'', JStr (ustr ''Spare''))]]))
        example_texts ([], 0) = Inr (example_result, 2)"
proof -
  let ?ts = "[JObj [(ustr ''text'', JStr (ustr ''Flame Sword''))],
               JObj [(ustr ''text'', JStr (ustr ''Shield''))],
               JObj [(ustr ''text'', JStr (ustr ''Spare''))]]"
  have c: "length (fst (collect_loop lower_ascii 0 example_texts ([], []))) = 2"
    by (simp add: example_texts_def heuristic_eval)
  then have le: "length (fst (collect_loop lower_ascii 0 example_texts ([], []))) \<le> length ?ts"
    by simp
  have run: "assemble_loop lower_ascii (JArr ?ts) example_texts ([], 0) = Inr (example_result, 2)"
    by (simp add: example_texts_def example_result_def heuristic_eval dict_getitem_def
        dict_of_pairs_def dict_update_def)
  from assemble_loop_in_bounds [OF le] c run show ?thesis
    by simp
qed

text \<open>
  Claim C2 says that any failed remote call, a malformed response body included, makes
  \<open>translate_batch\<close> return the identity mapping without raising. The handler catches
  \<open>RequestException\<close> only. A connection failure, a 4xx or 5xx status and a body that
  is not JSON raise it, and the identity mapping is returned
  (\<open>translate_batch_request_exception\<close>). A JSON body of the wrong shape raises
  something else, which leaves the method: \<open>IndexError\<close> for a \<open>translations\<close> array that
  is too short, \<open>KeyError\<close> for a body without \<open>translations\<close> or an element without
  \<open>text\<close>; the process then ends with status 1 and writes no output.
\<close>

theorem translate_batch_malformed_response_raises:
  "translate_batch lower_ascii
     (\<lambda>n req. Response 200 (Parsed (JObj [(ustr ''translations'', JArr [])])))
     example_self [[0x76FE]] [] =
     (Inl IndexError, [Post (make_request example_self [[0x76FE]])])
   \<and> translate_batch lower_ascii
       (\<lambda>n req. Response 200 (Parsed (JObj [])))
       example_self [[0x76FE]] [] =
       (Inl KeyError, [Post (make_request example_self [[0x76FE]])])
   \<and> translate_batch lower_ascii
       (\<lambda>n req. Response 200 (Parsed (JObj [(ustr ''translations'', JArr [JObj []])])))
       example_self [[0x76FE]] [] =
       (Inl KeyError, [Post (make_request example_self [[0x76FE]])])
   \<and> run_process lower_ascii
       (\<lambda>n req. Response 200 (Parsed (JObj [(ustr ''translations'', JArr [])])))
       example_world =
       (1, example_world,
        [Post (make_request example_self [[0x708E, 0x306E, 0x5263], [0x76FE]])])"
proof -
  let ?short = "\<lambda>(n::nat) (req::request).
      Response 200 (Parsed (JObj [(ustr ''translations'', JArr [])]))"
  have b1: "translate_batch lower_ascii ?short example_self [[0x76FE]] [] =
     (Inl IndexError, [Post (make_request example_self [[0x76FE]])])"
    by (simp add: run_eval heuristic_eval example_self_def)
  have b2: "translate_batch lower_ascii (\<lambda>n req. Response 200 (Parsed (JObj [])))
       example_self [[0x76FE]] [] =
       (Inl KeyError, [Post (make_request example_self [[0x76FE]])])"
    by (simp add: run_eval heuristic_eval example_self_def)
  have b3: "translate_batch lower_ascii
       (\<lambda>n req. Response 200 (Parsed (JObj [(ustr ''translations'', JArr [JObj []])])))
       example_self [[0x76FE]] [] =
       (Inl KeyError, [Post (make_request example_self [[0x76FE]])])"
    by (simp add: run_eval heuristic_eval example_self_def)
  have batch: "translate_batch lower_ascii ?short example_self example_texts [] =
      (Inl IndexError, [Post (make_request example_self [[0x708E, 0x306E, 0x5263], [0x76FE]])])"
    by (simp add: run_eval heuristic_eval example_self_def example_texts_def)
  have keys: "dict_keys (dict_of_pairs example_document) = example_texts"
    by (simp add: example_document_def example_texts_def dict_of_pairs_def dict_update_def
        dict_keys_def ustr_def)
  have len: "py_len (JObj example_document) = Inr 3"
    by (simp add: example_document_def dict_of_pairs_def dict_update_def ustr_def)
  have n: "length example_texts = 3"
    by (simp add: example_texts_def)
  have range: "py_range 3 3 = Inr [0]"
    by (simp add: py_range_def range_from.simps)
  have slice: "py_slice example_texts 0 3 = example_texts"
    by (simp add: py_slice_def example_texts_def)
  have input: "files example_world (input_file (self_config example_self)) =
      Some (Parsed (JObj example_document))"
    by (simp add: example_world_def example_self_def example_config_def)
  have bs: "self_batch_size example_self = 3"
    by (simp add: example_self_def)
  have "translate_json_file lower_ascii ?short example_self example_world [] =
      (Inl IndexError, example_world,
       [Post (make_request example_self [[0x708E, 0x306E, 0x5263], [0x76FE]])])"
    by (simp add: translate_json_file_def input len keys n range bs slice batch)
  then have p: "run_process lower_ascii ?short example_world =
       (1, example_world,
        [Post (make_request example_self [[0x708E, 0x306E, 0x5263], [0x76FE]])])"
    by (simp add: run_process_def main_def example_init)
  from b1 b2 b3 p show ?thesis by (intro conjI)
qed

subsection \<open>Fatal conditions\<close>

text \<open>
  Claim C9. A missing configuration file, a configuration that is not JSON, a credential
  equal to the placeholder and a missing input document each end the process with exit
  status 1; in each case, the missing input document included, the file system is left
  as it was and no effect (no request, no write to the output file) has happened.
\<close>

theorem fatal_conditions:
  "(config_files w (ustr ''config.json'') = None \<longrightarrow>
      run_process lower remote w = (1, w, []))
   \<and> (config_files w (ustr ''config.json'') = Some NotJSON \<longrightarrow>
      run_process lower remote w = (1, w, []))
   \<and> (\<forall>c. config_files w (ustr ''config.json'') = Some (Parsed c)
          \<and> deepl_api_key c = placeholder_key \<longrightarrow>
      run_process lower remote w = (1, w, []))
   \<and> (\<forall>c. config_files w (ustr ''config.json'') = Some (Parsed c)
          \<and> deepl_api_key c \<noteq> placeholder_key
          \<and> files w (input_file c) = None \<longrightarrow>
      run_process lower remote w = (1, w, []))"
  by (simp add: run_process_def main_def init_def load_config_def load_config_try_def
      translate_json_file_def)

theorem fatal_conditions_witness:
  "run_process lower_ascii example_remote \<lparr>config_files = Map.empty, files = Map.empty\<rparr> =
     (1, \<lparr>config_files = Map.empty, files = Map.empty\<rparr>, [])
   \<and> run_process lower_ascii example_remote
       \<lparr>config_files = [ustr ''config.json'' \<mapsto> NotJSON], files = files example_world\<rparr> =
     (1, \<lparr>config_files = [ustr ''config.json'' \<mapsto> NotJSON], files = files example_world\<rparr>, [])
   \<and> run_process lower_ascii example_remote
       \<lparr>config_files =
          [ustr ''config.json'' \<mapsto> Parsed (example_config\<lparr>deepl_api_key := placeholder_key\<rparr>)],
        files = files example_world\<rparr> =
     (1, \<lparr>config_files =
          [ustr ''config.json'' \<mapsto> Parsed (example_config\<lparr>deepl_api_key := placeholder_key\<rparr>)],
        files = files example_world\<rparr>, [])
   \<and> run_process lower_ascii example_remote (example_world\<lparr>files := Map.empty\<rparr>) =
     (1, example_world\<lparr>files := Map.empty\<rparr>, [])"
  using fatal_conditions [of "\<lparr>config_files = Map.empty, files = Map.empty\<rparr>"
      lower_ascii example_remote]
    fatal_conditions [of "\<lparr>config_files = [ustr ''config.json'' \<mapsto> NotJSON],
      files = files example_world\<rparr>" lower_ascii example_remote]
    fatal_conditions [of "\<lparr>config_files =
          [ustr ''config.json'' \<mapsto> Parsed (example_config\<lparr>deepl_api_key := placeholder_key\<rparr>)],
        files = files example_world\<rparr>" lower_ascii example_remote]
    fatal_conditions [of "example_world\<lparr>files := Map.empty\<rparr>" lower_ascii example_remote]
  by (simp add: example_world_def example_config_def placeholder_key_def ustr_def)

end
